theory Spec2Isabelle
  imports Complex_Main "HOL-Library.Char_ord"
begin

section \<open>JavaScript string operations used by the report generator\<close>

text \<open>
  Strings are modelled as \<open>string\<close> (lists of characters). The operations below follow the
  ECMAScript definitions of \<open>startsWith\<close>, \<open>includes\<close>, \<open>split\<close>, \<open>replace\<close> (string
  pattern: first occurrence only), \<open>trim\<close> and \<open>toLowerCase\<close> on ASCII text: the white
  space characters are tab, line feed, vertical tab, form feed, carriage return and space,
  and only the letters A-Z have a lower-case form. On text with characters beyond ASCII
  the model is an approximation: JavaScript also counts the Unicode spaces (U+00A0, U+FEFF,
  U+2028 and others) as white space in \<open>trim\<close> and in the class \<open>\s\<close>, and lower-cases
  letters beyond A-Z; the model leaves such characters as they are.
\<close>

definition startsWith :: "string \<Rightarrow> string \<Rightarrow> bool" where
  "startsWith s p = (take (length p) s = p)"

fun includes_str :: "string \<Rightarrow> string \<Rightarrow> bool" where
  "includes_str [] p = (p = [])"
| "includes_str (c # cs) p = (startsWith (c # cs) p \<or> includes_str cs p)"

text \<open>
  \<open>split_on sep s\<close> is \<open>s.split(sep)\<close> for a non-empty separator: the pieces between the
  leftmost non-overlapping occurrences of \<open>sep\<close>. With the empty separator JavaScript
  returns the characters one by one.
\<close>

fun split_on :: "string \<Rightarrow> string \<Rightarrow> string list" where
  "split_on sep [] = [[]]"
| "split_on sep (c # cs) =
     (if startsWith (c # cs) sep then [] # split_on sep (drop (length sep - 1) cs)
      else (case split_on sep cs of [] \<Rightarrow> [[c]] | p # ps \<Rightarrow> (c # p) # ps))"

definition js_split :: "string \<Rightarrow> string \<Rightarrow> string list" where
  "js_split s sep = (if sep = [] then map (\<lambda>c. [c]) s else split_on sep s)"

fun replace_first :: "string \<Rightarrow> string \<Rightarrow> string \<Rightarrow> string" where
  "replace_first [] p r = (if p = [] then r else [])"
| "replace_first (c # cs) p r =
     (if startsWith (c # cs) p then r @ drop (length p) (c # cs)
      else c # replace_first cs p r)"

definition isWhitespace :: "char \<Rightarrow> bool" where
  "isWhitespace c = (c \<in> set [CHR 0x09, CHR 0x0A, CHR 0x0B, CHR 0x0C, CHR 0x0D, CHR '' ''])"

definition trim :: "string \<Rightarrow> string" where
  "trim s = rev (dropWhile isWhitespace (rev (dropWhile isWhitespace s)))"

definition toLowerChar :: "char \<Rightarrow> char" where
  "toLowerChar c =
     (case map_of (zip ''ABCDEFGHIJKLMNOPQRSTUVWXYZ'' ''abcdefghijklmnopqrstuvwxyz'') c of
        None \<Rightarrow> c | Some d \<Rightarrow> d)"

definition toLowerCase :: "string \<Rightarrow> string" where
  "toLowerCase s = map toLowerChar s"

text \<open>\<open>a || b\<close> on strings: the empty string is falsy.\<close>

definition str_or :: "string \<Rightarrow> string \<Rightarrow> string" where
  "str_or a b = (if a = [] then b else a)"

text \<open>\<open>a || b\<close> where \<open>a\<close> may be \<open>undefined\<close>.\<close>

definition opt_or :: "string option \<Rightarrow> string \<Rightarrow> string" where
  "opt_or a b = (case a of None \<Rightarrow> b | Some s \<Rightarrow> str_or s b)"


section \<open>Report assembly: \<open>AutonomousReportGenerator.finalizeReport\<close>\<close>

text \<open>
  The body loses a leading \<open>## Insights\<close> heading (and is then trimmed); when it includes
  \<open>## Sources\<close> and splitting at the line \<open>## Sources\<close> gives exactly two parts, the
  second part becomes the sources block. Introduction, conclusion and sources are appended
  only when they are non-empty (JavaScript truthiness of strings). None of the string
  operations can throw, so the \<open>catch\<close> branch is unreachable and the result is a string.
\<close>

definition separator :: string where
  "separator = ''\<newline>\<newline>---\<newline>\<newline>''"

definition strip_insights :: "string \<Rightarrow> string" where
  "strip_insights content =
     (if startsWith content ''## Insights''
      then trim (replace_first content ''## Insights'' [])
      else content)"

definition split_sources :: "string \<Rightarrow> string \<times> string option" where
  "split_sources content =
     (if includes_str content ''## Sources''
      then (case js_split content ''\<newline>## Sources\<newline>'' of
              [p0, p1] \<Rightarrow> (p0, Some p1)
            | _ \<Rightarrow> (content, None))
      else (content, None))"

definition finalizeReport :: "string \<Rightarrow> string \<Rightarrow> string \<Rightarrow> string" where
  "finalizeReport content introduction conclusion =
     (let (body, sources) = split_sources (strip_insights content);
          r1 = (if introduction \<noteq> [] then introduction @ separator else []);
          r2 = r1 @ body;
          r3 = (if conclusion \<noteq> [] then r2 @ separator @ conclusion else r2)
      in case sources of
           None \<Rightarrow> r3
         | Some s \<Rightarrow> (if s \<noteq> [] then r3 @ ''\<newline>\<newline>## Sources\<newline>'' @ s else r3))"


section \<open>Document export: \<open>saveAsDocx\<close> and \<open>saveAsPdf\<close>\<close>

text \<open>
  The structured encoder keeps the lines whose trimmed form is not empty and turns each
  into a paragraph; the heading tests look at the line as it is (not trimmed). Packing the
  paragraphs into a file is left to the \<open>docx\<close> library.
\<close>

datatype heading_level = HEADING_1 | HEADING_2 | HEADING_3

record docx_par =
  par_text :: string
  heading :: "heading_level option"

definition docx_paragraph :: "string \<Rightarrow> docx_par" where
  "docx_paragraph line =
     (if startsWith line ''# '' then \<lparr>par_text = drop 2 line, heading = Some HEADING_1\<rparr>
      else if startsWith line ''## '' then \<lparr>par_text = drop 3 line, heading = Some HEADING_2\<rparr>
      else if startsWith line ''### '' then \<lparr>par_text = drop 4 line, heading = Some HEADING_3\<rparr>
      else \<lparr>par_text = line, heading = None\<rparr>)"

definition saveAsDocx_paragraphs :: "string \<Rightarrow> docx_par list" where
  "saveAsDocx_paragraphs text =
     map docx_paragraph (filter (\<lambda>line. trim line \<noteq> []) (js_split text ''\<newline>''))"

text \<open>
  The paginated encoder keeps a vertical cursor \<open>y\<close> and emits drawing operations:
  \<open>DrawText size bold s x y\<close> is \<open>doc.fontSize(size).font(...)\<close> followed by
  \<open>doc.text(s, x, y)\<close>, \<open>AddPage\<close> is \<open>doc.addPage()\<close>. The width of a string in the body
  font comes from the PDF library and is a parameter. The cursor is a real number: the
  increments 15, 22.5, 19.5 and 18 are multiples of one half, so the floating-point sums of
  the source are exact.
\<close>

datatype pdf_op = AddPage | DrawText nat bool string real real

definition lineHeight :: real where "lineHeight = 15"
definition pageHeight :: real where "pageHeight = 792"
definition bottomMargin :: real where "bottomMargin = 50"

text \<open>The inner loop over the words of a line that is wider than the content area.\<close>

fun wrap_words :: "(string \<Rightarrow> real) \<Rightarrow> string list \<Rightarrow> string \<Rightarrow> real \<Rightarrow> pdf_op list
                   \<Rightarrow> string \<times> real \<times> pdf_op list" where
  "wrap_words widthOfString [] currentLine y ops = (currentLine, y, ops)"
| "wrap_words widthOfString (word # ws) currentLine y ops =
     (let testLine = (if currentLine \<noteq> [] then currentLine @ '' '' @ word else word)
      in if widthOfString testLine > 500
         then wrap_words widthOfString ws word (y + lineHeight)
                (ops @ [DrawText 11 False currentLine 50 y])
         else wrap_words widthOfString ws testLine y ops)"

text \<open>One iteration of the loop over the raw lines of the text.\<close>

definition pdf_line ::
  "(string \<Rightarrow> real) \<Rightarrow> real \<times> pdf_op list \<Rightarrow> string \<Rightarrow> real \<times> pdf_op list" where
  "pdf_line widthOfString st rawLine =
     (let (y0, ops0) = st; line = trim rawLine
      in if line = [] then (y0 + lineHeight, ops0)
         else
           let (y, ops) = (if y0 > pageHeight - bottomMargin then (50, ops0 @ [AddPage])
                           else (y0, ops0))
           in if startsWith line ''# ''
              then (y + lineHeight * 1.5, ops @ [DrawText 16 True (drop 2 line) 50 y])
              else if startsWith line ''## ''
              then (y + lineHeight * 1.3, ops @ [DrawText 13 True (drop 3 line) 50 y])
              else if startsWith line ''### ''
              then (y + lineHeight * 1.2, ops @ [DrawText 11 True (drop 4 line) 50 y])
              else if widthOfString line > 500
              then (let (currentLine, y', ops') =
                          wrap_words widthOfString (js_split line '' '') [] y ops
                    in if currentLine \<noteq> []
                       then (y' + lineHeight, ops' @ [DrawText 11 False currentLine 50 y'])
                       else (y', ops'))
              else (y + lineHeight, ops @ [DrawText 11 False line 50 y]))"

definition saveAsPdf_render :: "(string \<Rightarrow> real) \<Rightarrow> string \<Rightarrow> real \<times> pdf_op list" where
  "saveAsPdf_render widthOfString text =
     foldl (pdf_line widthOfString) (50, []) (js_split text ''\<newline>'')"

text \<open>
  The classification a drawing operation shows: 16 pt bold is a level-1 heading, 13 pt bold
  level 2, 11 pt bold level 3, and the regular body font is body text.
\<close>

fun pdf_heading :: "pdf_op \<Rightarrow> heading_level option" where
  "pdf_heading (DrawText fontSize bold s x y) =
     (if bold \<and> fontSize = 16 then Some HEADING_1
      else if bold \<and> fontSize = 13 then Some HEADING_2
      else if bold \<and> fontSize = 11 then Some HEADING_3
      else None)"
| "pdf_heading AddPage = None"


section \<open>Persona parsing: \<open>parseAnalystsFromResponse\<close>\<close>

text \<open>
  The record under construction is a JavaScript object with optional keys. A key that is
  present holds a string or \<open>undefined\<close>; \<open>Object.keys\<close> counts the keys that are
  present, whatever they hold.
\<close>

datatype js_val = Undefined | Str string

record analyst =
  name :: string
  role :: string
  affiliation :: string
  description :: string

record partial_analyst =
  p_name :: "js_val option"
  p_role :: "js_val option"
  p_affiliation :: "js_val option"
  p_description :: "js_val option"

definition empty_partial :: partial_analyst where
  "empty_partial = \<lparr>p_name = None, p_role = None, p_affiliation = None, p_description = None\<rparr>"

definition truthy :: "js_val option \<Rightarrow> bool" where
  "truthy v = (case v of Some (Str s) \<Rightarrow> s \<noteq> [] | _ \<Rightarrow> False)"

definition val_or :: "js_val option \<Rightarrow> string \<Rightarrow> string" where
  "val_or v d = (case v of Some (Str s) \<Rightarrow> str_or s d | _ \<Rightarrow> d)"

definition keys_count :: "partial_analyst \<Rightarrow> nat" where
  "keys_count a = length (filter (\<lambda>v. v \<noteq> None) [p_name a, p_role a, p_affiliation a, p_description a])"

text \<open>Character classes of the regular expressions (\<open>\d\<close>, \<open>[A-Z]\<close>, \<open>[a-z]\<close>, \<open>\w\<close>).\<close>

definition isDigit :: "char \<Rightarrow> bool" where
  "isDigit c = (CHR ''0'' \<le> c \<and> c \<le> CHR ''9'')"
definition isUpper :: "char \<Rightarrow> bool" where
  "isUpper c = (CHR ''A'' \<le> c \<and> c \<le> CHR ''Z'')"
definition isLower :: "char \<Rightarrow> bool" where
  "isLower c = (CHR ''a'' \<le> c \<and> c \<le> CHR ''z'')"
definition isWordChar :: "char \<Rightarrow> bool" where
  "isWordChar c = (isUpper c \<or> isLower c \<or> isDigit c \<or> c = CHR ''_'')"

text \<open>
  \<open>cleanLine\<close>: the trimmed line with \<open>/^\*\s*/\<close> removed, then every \<open>**\<close> removed
  (left to right, one pass), then trimmed again.
\<close>

definition strip_bullet :: "string \<Rightarrow> string" where
  "strip_bullet s = (case s of c # cs \<Rightarrow> if c = CHR ''*'' then dropWhile isWhitespace cs else s | [] \<Rightarrow> [])"

fun remove_double_star :: "string \<Rightarrow> string" where
  "remove_double_star [] = []"
| "remove_double_star [c] = [c]"
| "remove_double_star (c # d # cs) =
     (if c = CHR ''*'' \<and> d = CHR ''*'' then remove_double_star cs
      else c # remove_double_star (d # cs))"

definition cleanLine_of :: "string \<Rightarrow> string" where
  "cleanLine_of line = trim (remove_double_star (strip_bullet (trim line)))"

text \<open>\<open>cleanLine.split(':')[1]?.trim()\<close>: the text between the first and the second colon.\<close>

definition nth_opt :: "'a list \<Rightarrow> nat \<Rightarrow> 'a option" where
  "nth_opt xs i = (if i < length xs then Some (xs ! i) else None)"

definition field_value :: "string \<Rightarrow> js_val" where
  "field_value cleanLine =
     (case nth_opt (js_split cleanLine '':'') 1 of None \<Rightarrow> Undefined | Some s \<Rightarrow> Str (trim s))"

text \<open>The pattern \<open>/^analyst\s*\d*:/\<close> on the lower-cased line.\<close>

definition analyst_marker :: "string \<Rightarrow> bool" where
  "analyst_marker s =
     (startsWith s ''analyst'' \<and>
      (case dropWhile isDigit (dropWhile isWhitespace (drop 7 s)) of
         [] \<Rightarrow> False | c # _ \<Rightarrow> c = CHR '':''))"

definition completeAnalyst :: "partial_analyst \<Rightarrow> analyst" where
  "completeAnalyst a =
     \<lparr>name = val_or (p_name a) ''Unknown Analyst'',
      role = val_or (p_role a) ''Research Analyst'',
      affiliation = val_or (p_affiliation a) ''AI Research Institute'',
      description = val_or (p_description a)
         (val_or (p_name a) ''This analyst'' @ '' provides expert analysis on the topic.'')\<rparr>"

text \<open>
  The previous record is pushed only when it has a truthy name and more than one key.
\<close>

definition flush :: "analyst list \<Rightarrow> partial_analyst \<Rightarrow> analyst list" where
  "flush analysts cur =
     (if truthy (p_name cur) \<and> keys_count cur > 1 then analysts @ [completeAnalyst cur]
      else analysts)"

text \<open>The body of the loop over the lines; the branches are tested in the source's order.\<close>

definition parse_line :: "analyst list \<times> partial_analyst \<Rightarrow> string \<Rightarrow> analyst list \<times> partial_analyst" where
  "parse_line st line =
     (let (analysts, cur) = st;
          cleanLine = cleanLine_of line;
          lower = toLowerCase cleanLine
      in if startsWith lower ''name:''
         then (flush analysts cur,
               empty_partial\<lparr>p_name := Some (Str (val_or (Some (field_value cleanLine)) ''Unknown Analyst''))\<rparr>)
         else if startsWith lower ''role:''
         then (analysts, cur\<lparr>p_role := Some (field_value cleanLine)\<rparr>)
         else if startsWith lower ''affiliation:''
         then (analysts, cur\<lparr>p_affiliation := Some (field_value cleanLine)\<rparr>)
         else if startsWith lower ''description:''
         then (analysts, cur\<lparr>p_description := Some (field_value cleanLine)\<rparr>)
         else if analyst_marker lower
         then (flush analysts cur,
               empty_partial\<lparr>p_name := Some (Str (val_or (Some (field_value cleanLine)) cleanLine))\<rparr>)
         else (analysts, cur))"


text \<open>
  The fallback looks for \<open>/\b([A-Z][a-z]+(?:\s+[A-Z][a-z]+)+)\b/g\<close>. A run \<open>[a-z]+\<close> or
  \<open>\s+\<close> always extends as far as it can, since what must follow it (white space, a
  capital or a word boundary) cannot start inside the run. The repeated group is greedy:
  when the word boundary fails after the last group the matcher gives that group back,
  and the boundary then holds before its white space. \<open>cap_word\<close> and \<open>name_group\<close>
  return the length of what they match at the head of the string; \<open>name_match prev s\<close>
  is the length of the match that starts at the head of \<open>s\<close>, where \<open>prev\<close> is the
  character before it.
\<close>

definition cap_word :: "string \<Rightarrow> nat option" where
  "cap_word s =
     (case s of
        [] \<Rightarrow> None
      | c # cs \<Rightarrow> if isUpper c \<and> takeWhile isLower cs \<noteq> []
                  then Some (1 + length (takeWhile isLower cs)) else None)"

definition name_group :: "string \<Rightarrow> nat option" where
  "name_group s =
     (if takeWhile isWhitespace s = [] then None
      else case cap_word (dropWhile isWhitespace s) of
             None \<Rightarrow> None
           | Some n \<Rightarrow> Some (length (takeWhile isWhitespace s) + n))"

lemma name_group_shorter:
  "name_group s = Some n \<Longrightarrow> length s - n < length s"
  by (cases s) (auto simp: name_group_def split: if_splits option.splits)

function name_groups :: "string \<Rightarrow> nat list" where
  "name_groups s = (case name_group s of None \<Rightarrow> [] | Some n \<Rightarrow> n # name_groups (drop n s))"
  by pat_completeness auto
termination
  by (relation "measure length") (simp_all add: name_group_shorter)

declare name_groups.simps [simp del]

definition boundary_after :: "string \<Rightarrow> bool" where
  "boundary_after rest = (case rest of [] \<Rightarrow> True | c # _ \<Rightarrow> \<not> isWordChar c)"

definition name_match :: "char option \<Rightarrow> string \<Rightarrow> nat option" where
  "name_match prev s =
     (if (case prev of None \<Rightarrow> False | Some p \<Rightarrow> isWordChar p) then None
      else case cap_word s of
             None \<Rightarrow> None
           | Some n0 \<Rightarrow>
               let gs = name_groups (drop n0 s); total = n0 + sum_list gs
               in if gs = [] then None
                  else if boundary_after (drop total s) then Some total
                  else if length gs \<ge> 2 then Some (n0 + sum_list (butlast gs))
                  else None)"

text \<open>All matches, left to right; the search resumes where the last match ended.\<close>

fun match_names :: "char option \<Rightarrow> string \<Rightarrow> string list" where
  "match_names prev [] = []"
| "match_names prev (c # cs) =
     (case name_match prev (c # cs) of
        None \<Rightarrow> match_names (Some c) cs
      | Some n \<Rightarrow> take n (c # cs) #
                  match_names (Some (last (c # take (n - 1) cs))) (drop (n - 1) cs))"

text \<open>\<open>[...new Set(xs)]\<close>: the distinct elements in order of first occurrence.\<close>

fun unique_seen :: "string list \<Rightarrow> string list \<Rightarrow> string list" where
  "unique_seen seen [] = []"
| "unique_seen seen (x # xs) =
     (if x \<in> set seen then unique_seen seen xs else x # unique_seen (x # seen) xs)"

text \<open>Decimal digits of a number, for the template \<open>Analyst ${i + 1}\<close>.\<close>

fun digits :: "nat \<Rightarrow> string" where
  "digits n = (if n < 10 then [''0123456789'' ! n]
               else digits (n div 10) @ [''0123456789'' ! (n mod 10)])"

declare digits.simps [simp del]

definition fallback_analyst :: "string list \<Rightarrow> nat \<Rightarrow> analyst" where
  "fallback_analyst uniqueNames i =
     (let nm = opt_or (nth_opt uniqueNames i) (''Analyst '' @ digits (i + 1))
      in \<lparr>name = nm,
          role = (if i = 0 then ''Senior Economist'' else if i = 1 then ''Data Analyst''
                  else ''Research Analyst''),
          affiliation = (if i = 0 then ''Reserve Bank'' else if i = 1 then ''Research Institute''
                         else ''AI Analytics''),
          description = nm @ '' provides expert analysis and insights on the topic.''\<rparr>)"

definition createAnalystsFromContent :: "string \<Rightarrow> analyst list" where
  "createAnalystsFromContent content =
     (let uniqueNames = take 3 (unique_seen [] (match_names None content))
      in map (fallback_analyst uniqueNames) [0 ..< max (length uniqueNames) 3])"

definition parseAnalystsFromResponse :: "string \<Rightarrow> analyst list" where
  "parseAnalystsFromResponse content =
     (let (analysts, cur) = foldl parse_line ([], empty_partial) (js_split content ''\<newline>'');
          analysts' = (if truthy (p_name cur) then analysts @ [completeAnalyst cur] else analysts)
      in if analysts' = [] then createAnalystsFromContent content else analysts')"


definition fields_nonempty :: "analyst \<Rightarrow> bool" where
  "fields_nonempty a = (name a \<noteq> [] \<and> role a \<noteq> [] \<and> affiliation a \<noteq> [] \<and> description a \<noteq> [])"


section \<open>Interview pipeline: \<open>InterviewGraphBuilder\<close>\<close>

text \<open>
  A thrown exception is a value: \<open>Fault\<close> is a failure raised by a collaborator (language
  model, web search), \<open>TypeError\<close> the error JavaScript raises when a value that is not a
  function is called, and \<open>ResearchAnalystException msg details\<close> the exception every
  \<open>catch\<close> block of the source throws, with the two arguments its constructor is given.
  Every fallible operation returns \<open>exn + 'a\<close>.
\<close>

datatype exn = Fault string | TypeError string | ResearchAnalystException string exn

text \<open>
  The class \<open>Logger\<close> has the methods \<open>info\<close>, \<open>error\<close>, \<open>warn\<close> and \<open>debug\<close>, none of
  which throws. A call of any other name on a logger finds \<open>undefined\<close> and throws a
  \<open>TypeError\<close>. Only such a call is written out in the model; the calls of the four
  methods have no effect on the results.
\<close>

definition logger_methods :: "string list" where
  "logger_methods = [''info'', ''error'', ''warn'', ''debug'']"

definition logger_call :: "string \<Rightarrow> string \<Rightarrow> exn + unit" where
  "logger_call method msg =
     (if method \<in> set logger_methods then Inr ()
      else Inl (TypeError (''this.logger.'' @ method @ '' is not a function'')))"

datatype msg_type = System | Human | AI

record message =
  m_type :: msg_type
  m_role :: "string option"
  m_content :: string

definition SystemMessage :: "string \<Rightarrow> message" where
  "SystemMessage c = \<lparr>m_type = System, m_role = None, m_content = c\<rparr>"

definition HumanMessage :: "string \<Rightarrow> message" where
  "HumanMessage c = \<lparr>m_type = Human, m_role = None, m_content = c\<rparr>"

record search_doc =
  url :: "string option"
  doc_content :: "string option"

record interview_analyst = analyst +
  persona :: "string option"

record interview_state =
  messages :: "message list"
  max_num_turns :: nat
  context_blocks :: "string list"
  the_analyst :: interview_analyst
  interview :: string
  sections :: "string list"

text \<open>
  The collaborators of the pipeline are parameters: the language model, the web search
  (which returns a list of documents, or nothing) and the prompt templates.
\<close>

record interview_env =
  llm_invoke :: "message list \<Rightarrow> exn + message"
  tavily_invoke :: "string \<Rightarrow> exn + search_doc list option"
  ANALYST_ASK_QUESTIONS :: "string \<Rightarrow> string"
  GENERATE_SEARCH_QUERY :: string
  GENERATE_ANSWERS :: "string \<Rightarrow> string \<Rightarrow> string"
  WRITE_SECTION :: "string \<Rightarrow> string"

text \<open>A step returns a partial state holding one key.\<close>

datatype update =
  Messages "message list" | Context "string list" | Interview string | Sections "string list"

text \<open>\<open>xs.join(sep)\<close>.\<close>

fun join_with :: "string \<Rightarrow> string list \<Rightarrow> string" where
  "join_with sep [] = []"
| "join_with sep [x] = x"
| "join_with sep (x # y # ys) = x @ sep @ join_with sep (y # ys)"

definition generateQuestion :: "interview_env \<Rightarrow> interview_state \<Rightarrow> exn + update" where
  "generateQuestion env state =
     (case llm_invoke env
             (SystemMessage (ANALYST_ASK_QUESTIONS env (opt_or (persona (the_analyst state)) []))
              # messages state) of
        Inl e \<Rightarrow> Inl (ResearchAnalystException ''Failed to generate analyst question'' e)
      | Inr question \<Rightarrow> Inr (Messages [question]))"

definition format_doc :: "search_doc \<Rightarrow> string" where
  "format_doc doc =
     ''<Document href='' @ [CHR 0x22] @ opt_or (url doc) ''#'' @ [CHR 0x22] @ ''/>\<newline>''
     @ opt_or (doc_content doc) [] @ ''\<newline></Document>''"

text \<open>
  The branch of \<open>searchWeb\<close> for no results: it calls \<open>this.logger.warning\<close>, then returns
  the placeholder. The call is inside the \<open>try\<close> block, so what it throws is caught and
  thrown again as a \<open>ResearchAnalystException\<close>.
\<close>

definition no_results_found :: "exn + update" where
  "no_results_found =
     (case logger_call ''warning'' ''No search results found'' of
        Inl e \<Rightarrow> Inl (ResearchAnalystException ''Failed during web search execution'' e)
      | Inr u \<Rightarrow> Inr (Context [''[No search results found.]'']))"

definition searchWeb :: "interview_env \<Rightarrow> interview_state \<Rightarrow> exn + update" where
  "searchWeb env state =
     (case llm_invoke env (SystemMessage (GENERATE_SEARCH_QUERY env) # messages state) of
        Inl e \<Rightarrow> Inl (ResearchAnalystException ''Failed during web search execution'' e)
      | Inr searchQueryResponse \<Rightarrow>
          (case tavily_invoke env (m_content searchQueryResponse) of
             Inl e \<Rightarrow> Inl (ResearchAnalystException ''Failed during web search execution'' e)
           | Inr None \<Rightarrow> no_results_found
           | Inr (Some searchDocs) \<Rightarrow>
               if length searchDocs = 0 then no_results_found
               else Inr (Context [join_with separator (map format_doc searchDocs)])))"

definition context_text :: "interview_state \<Rightarrow> string" where
  "context_text state = str_or (join_with ''\<newline>'' (context_blocks state)) ''[No context available.]''"

definition generateAnswer :: "interview_env \<Rightarrow> interview_state \<Rightarrow> exn + update" where
  "generateAnswer env state =
     (case llm_invoke env
             (SystemMessage (GENERATE_ANSWERS env (opt_or (persona (the_analyst state)) [])
                               (context_text state))
              # messages state) of
        Inl e \<Rightarrow> Inl (ResearchAnalystException ''Failed to generate expert answer'' e)
      | Inr answer \<Rightarrow> Inr (Messages [answer\<lparr>m_role := Some ''expert''\<rparr>]))"

definition saveInterview :: "interview_env \<Rightarrow> interview_state \<Rightarrow> exn + update" where
  "saveInterview env state =
     Inr (Interview (join_with ''\<newline>''
            (map (\<lambda>msg. opt_or (m_role msg) ''unknown'' @ '': '' @ m_content msg) (messages state))))"

definition writeSection :: "interview_env \<Rightarrow> interview_state \<Rightarrow> exn + update" where
  "writeSection env state =
     (case llm_invoke env
             [SystemMessage (WRITE_SECTION env (description (the_analyst state))),
              HumanMessage (''Use this source to write your section: '' @ context_text state)] of
        Inl e \<Rightarrow> Inl (ResearchAnalystException ''Failed to generate report section'' e)
      | Inr section \<Rightarrow> Inr (Sections [m_content section]))"

text \<open>
  The graph of \<open>build\<close>: five nodes joined by the edges \<open>ask_question\<close> to
  \<open>search_web\<close> to \<open>generate_answer\<close> to \<open>save_interview\<close> to \<open>write_section\<close>.
\<close>

datatype node = ask_question | search_web | generate_answer | save_interview | write_section

fun run_node :: "interview_env \<Rightarrow> node \<Rightarrow> interview_state \<Rightarrow> exn + update" where
  "run_node env ask_question = generateQuestion env"
| "run_node env search_web = searchWeb env"
| "run_node env generate_answer = generateAnswer env"
| "run_node env save_interview = saveInterview env"
| "run_node env write_section = writeSection env"

text \<open>
  Modelled from the spec: the state-graph library that runs the nodes is not part of the
  sources. It merges the partial state a node returns into the interview state: messages,
  context blocks and sections accumulate, the transcript is replaced; a node that throws
  ends the run with that exception.
\<close>

fun apply_update :: "interview_state \<Rightarrow> update \<Rightarrow> interview_state" where
  "apply_update s (Messages ms) = s\<lparr>messages := messages s @ ms\<rparr>"
| "apply_update s (Context cs) = s\<lparr>context_blocks := context_blocks s @ cs\<rparr>"
| "apply_update s (Interview t) = s\<lparr>interview := t\<rparr>"
| "apply_update s (Sections ss) = s\<lparr>sections := sections s @ ss\<rparr>"

fun run_nodes :: "interview_env \<Rightarrow> node list \<Rightarrow> interview_state \<Rightarrow> exn + interview_state" where
  "run_nodes env [] s = Inr s"
| "run_nodes env (n # ns) s =
     (case run_node env n s of
        Inl e \<Rightarrow> Inl e
      | Inr u \<Rightarrow> run_nodes env ns (apply_update s u))"

definition run_interview :: "interview_env \<Rightarrow> interview_state \<Rightarrow> exn + interview_state" where
  "run_interview env s =
     run_nodes env [ask_question, search_web, generate_answer, save_interview, write_section] s"

section \<open>Report workflow: \<open>AutonomousReportGenerator.executeWorkflow\<close>\<close>

text \<open>The language model and the prompt templates are parameters.\<close>

record reporter_env =
  reporter_llm :: "message list \<Rightarrow> exn + message"
  CREATE_ANALYSTS_PROMPT :: "string \<Rightarrow> int \<Rightarrow> string \<Rightarrow> string"
  REPORT_WRITER_INSTRUCTIONS :: "string \<Rightarrow> string"
  INTRO_CONCLUSION_INSTRUCTIONS :: "string \<Rightarrow> string \<Rightarrow> string"

record create_analysts_input =
  in_topic :: string
  in_max_analysts :: int
  human_analyst_feedback :: "string option"

definition createAnalysts :: "reporter_env \<Rightarrow> create_analysts_input \<Rightarrow> exn + analyst list" where
  "createAnalysts env input =
     (let feedback = (case human_analyst_feedback input of None \<Rightarrow> [] | Some f \<Rightarrow> f)
      in case reporter_llm env
                [SystemMessage (CREATE_ANALYSTS_PROMPT env (in_topic input) (in_max_analysts input)
                                  feedback),
                 HumanMessage ''Generate the set of analysts.''] of
           Inl e \<Rightarrow> Inl (ResearchAnalystException ''Failed to create analysts'' e)
         | Inr response \<Rightarrow> Inr (parseAnalystsFromResponse (m_content response)))"

definition writeReport :: "reporter_env \<Rightarrow> string list \<Rightarrow> string \<Rightarrow> exn + string \<times> string list" where
  "writeReport env sections0 topic =
     (let sections1 = (if length sections0 = 0
                       then sections0 @ [''No sections generated '' @ [CHR 0xE2, CHR 0x80, CHR 0x94]
                                         @ '' please verify interview stage.'']
                       else sections0)
      in case reporter_llm env
                [SystemMessage (REPORT_WRITER_INSTRUCTIONS env topic),
                 HumanMessage (join_with ''\<newline>\<newline>'' sections1)] of
           Inl e \<Rightarrow> Inl (ResearchAnalystException ''Failed to write main report'' e)
         | Inr report \<Rightarrow> Inr (m_content report, sections1))"

definition writeIntroduction :: "reporter_env \<Rightarrow> string list \<Rightarrow> string \<Rightarrow> exn + string" where
  "writeIntroduction env sections0 topic =
     (case reporter_llm env
             [SystemMessage (INTRO_CONCLUSION_INSTRUCTIONS env topic
                               (join_with ''\<newline>\<newline>'' sections0)),
              HumanMessage ''Write the report introduction''] of
        Inl e \<Rightarrow> Inl (ResearchAnalystException ''Failed to generate introduction'' e)
      | Inr intro \<Rightarrow> Inr (m_content intro))"

definition writeConclusion :: "reporter_env \<Rightarrow> string list \<Rightarrow> string \<Rightarrow> exn + string" where
  "writeConclusion env sections0 topic =
     (case reporter_llm env
             [SystemMessage (INTRO_CONCLUSION_INSTRUCTIONS env topic
                               (join_with ''\<newline>\<newline>'' sections0)),
              HumanMessage ''Write the report conclusion''] of
        Inl e \<Rightarrow> Inl (ResearchAnalystException ''Failed to generate conclusion'' e)
      | Inr conclusion \<Rightarrow> Inr (m_content conclusion))"

definition mock_section :: "analyst \<Rightarrow> string" where
  "mock_section a =
     ''## Section: '' @ name a @ ''\<newline>Analysis from '' @ role a @ '' at '' @ affiliation a
     @ ''.\<newline>\<newline>'' @ description a @ ''\<newline>\<newline>Mock interview content would go here.''"

record workflow_result =
  r_thread_id :: string
  r_analysts :: "analyst list"
  r_sections :: "string list"
  r_final_report :: string

text \<open>
  The generated thread identifier (time stamp and random suffix) is a parameter. When
  \<open>feedback\<close> is absent or empty, \<open>createAnalysts\<close> receives the empty string.
\<close>

definition workflow_failed :: "exn \<Rightarrow> exn + workflow_result" where
  "workflow_failed e = Inl (ResearchAnalystException ''Workflow execution failed'' e)"

definition reporter_executeWorkflow ::
  "reporter_env \<Rightarrow> string \<Rightarrow> string \<Rightarrow> int \<Rightarrow> string option \<Rightarrow> exn + workflow_result" where
  "reporter_executeWorkflow env threadId topic maxAnalysts feedback =
     (case createAnalysts env
             \<lparr>in_topic = topic, in_max_analysts = maxAnalysts,
              human_analyst_feedback = Some (opt_or feedback [])\<rparr> of
        Inl e \<Rightarrow> workflow_failed e
      | Inr analysts \<Rightarrow>
          (case writeReport env (map mock_section analysts) topic of
             Inl e \<Rightarrow> workflow_failed e
           | Inr (content, sections1) \<Rightarrow>
               (case writeIntroduction env sections1 topic of
                  Inl e \<Rightarrow> workflow_failed e
                | Inr introduction \<Rightarrow>
                    (case writeConclusion env sections1 topic of
                       Inl e \<Rightarrow> workflow_failed e
                     | Inr conclusion \<Rightarrow>
                         Inr \<lparr>r_thread_id = threadId, r_analysts = analysts,
                              r_sections = sections1,
                              r_final_report = finalizeReport content introduction conclusion\<rparr>))))"

section \<open>Workflow coordinator: \<open>ReportService\<close>\<close>

text \<open>
  The service keeps a table from thread identifiers to workflow objects. The current time
  and the fresh identifiers (\<open>uuidv4\<close>) are parameters of the operations.

  \<open>startReportGeneration\<close> stores the new entry, calls \<open>executeWorkflow\<close> without
  awaiting it and returns: the call is recorded in \<open>launched\<close> and completes later
  (\<open>run_launched\<close>), since the table is written only after the awaited workflow has
  finished. \<open>submitFeedback\<close> awaits \<open>executeWorkflow\<close>; \<open>record_feedback\<close> is the
  table while that call is pending.

  \<open>executeWorkflow\<close> is private and is called only for an identifier that is in the table
  (\<open>startReportGeneration\<close> stores the entry first, \<open>submitFeedback\<close> returns early when
  it is absent); for an absent identifier the model leaves the table as it is.
\<close>

datatype status = in_progress | completed | error

record workflow =
  wf_thread_id :: string
  wf_topic :: string
  wf_max_analysts :: int
  wf_status :: status
  wf_start_time :: nat
  wf_end_time :: "nat option"
  wf_analysts :: "analyst list option"
  wf_sections :: "string list option"
  wf_final_report :: "string option"
  wf_error :: "string option"
  wf_feedback :: "string option"

record service_state =
  workflows :: "string \<rightharpoonup> workflow"
  launched :: "(string \<times> string \<times> int) list"

record api_response =
  success :: bool
  data :: "string option"
  resp_error :: "string option"
  resp_message :: "string option"

text \<open>
  \<open>error.message\<close>. The constructor of \<open>ResearchAnalystException\<close> passes its first argument
  (a string at every call) to \<open>Error\<close> as the message and does not keep the second.
\<close>

fun exn_message :: "exn \<Rightarrow> string" where
  "exn_message (Fault m) = m"
| "exn_message (TypeError m) = m"
| "exn_message (ResearchAnalystException m details) = m"

definition startReportGeneration ::
  "nat \<Rightarrow> string \<Rightarrow> string \<Rightarrow> int \<Rightarrow> service_state \<Rightarrow> api_response \<times> service_state" where
  "startReportGeneration now threadId topic maxAnalysts st =
     (\<lparr>success = True, data = Some threadId, resp_error = None,
       resp_message = Some ''Pipeline initiated successfully.''\<rparr>,
      st\<lparr>workflows := (workflows st)(threadId \<mapsto>
            \<lparr>wf_thread_id = threadId, wf_topic = topic, wf_max_analysts = maxAnalysts,
             wf_status = in_progress, wf_start_time = now, wf_end_time = None,
             wf_analysts = None, wf_sections = None, wf_final_report = None,
             wf_error = None, wf_feedback = None\<rparr>),
         launched := launched st @ [(threadId, topic, maxAnalysts)]\<rparr>)"

definition executeWorkflow ::
  "reporter_env \<Rightarrow> nat \<Rightarrow> string \<Rightarrow> string \<Rightarrow> string \<Rightarrow> int \<Rightarrow> service_state \<Rightarrow> service_state" where
  "executeWorkflow env now genId threadId topic maxAnalysts st =
     (case workflows st threadId of
        None \<Rightarrow> st
      | Some w \<Rightarrow>
          (case reporter_executeWorkflow env genId topic maxAnalysts None of
             Inr result \<Rightarrow>
               st\<lparr>workflows := (workflows st)(threadId \<mapsto>
                     w\<lparr>wf_thread_id := r_thread_id result,
                       wf_analysts := Some (r_analysts result),
                       wf_sections := Some (r_sections result),
                       wf_final_report := Some (r_final_report result),
                       wf_status := completed, wf_end_time := Some now\<rparr>)\<rparr>
           | Inl e \<Rightarrow>
               st\<lparr>workflows := (workflows st)(threadId \<mapsto>
                     w\<lparr>wf_status := error, wf_error := Some (exn_message e),
                       wf_end_time := Some now\<rparr>)\<rparr>))"

definition record_feedback :: "string \<Rightarrow> string \<Rightarrow> workflow \<Rightarrow> service_state \<Rightarrow> service_state" where
  "record_feedback threadId feedback w st =
     st\<lparr>workflows := (workflows st)(threadId \<mapsto> w\<lparr>wf_feedback := Some feedback\<rparr>)\<rparr>"

definition submitFeedback ::
  "reporter_env \<Rightarrow> nat \<Rightarrow> string \<Rightarrow> string \<Rightarrow> string \<Rightarrow> service_state \<Rightarrow> api_response \<times> service_state" where
  "submitFeedback env now genId threadId feedback st =
     (case workflows st threadId of
        None \<Rightarrow>
          (\<lparr>success = False, data = None,
            resp_error = Some (''Workflow with thread_id '' @ threadId @ '' not found''),
            resp_message = None\<rparr>, st)
      | Some w \<Rightarrow>
          (\<lparr>success = True, data = None, resp_error = None,
            resp_message = Some ''Feedback processed successfully''\<rparr>,
           executeWorkflow env now genId threadId (wf_topic w) (wf_max_analysts w)
             (record_feedback threadId feedback w st)))"

definition run_launched :: "reporter_env \<Rightarrow> nat \<Rightarrow> string \<Rightarrow> service_state \<Rightarrow> service_state" where
  "run_launched env now genId st =
     (case launched st of
        [] \<Rightarrow> st
      | (threadId, topic, maxAnalysts) # rest \<Rightarrow>
          executeWorkflow env now genId threadId topic maxAnalysts (st\<lparr>launched := rest\<rparr>))"

section \<open>Download: the route \<open>/download/:fileName\<close> and \<open>ReportService.downloadFile\<close>\<close>

text \<open>
  The file system under the output root is a tree: a file with its contents, or a
  directory with its entries in the order \<open>readdirSync\<close> lists them. \<open>findFile\<close> returns
  the matches (full path, paired with the contents \<open>readFileSync\<close> reads at that path) and
  the directories it has listed on the way, in order. The output root may be missing
  (\<open>existsSync\<close> is false) or not a directory (\<open>readdirSync\<close> throws and \<open>downloadFile\<close>
  catches): both give \<open>null\<close>.
\<close>

datatype fs_node = File string | Dir "(string \<times> fs_node) list"

fun findFile :: "string \<Rightarrow> (string \<times> fs_node) list \<Rightarrow> string \<Rightarrow> (string \<times> string) list \<times> string list" where
  "findFile dir [] fileName = ([], [])"
| "findFile dir ((item, File bytes) # items) fileName =
     ((if item = fileName then [(dir @ ''/'' @ item, bytes)] else [])
        @ fst (findFile dir items fileName),
      snd (findFile dir items fileName))"
| "findFile dir ((item, Dir children) # items) fileName =
     (fst (findFile (dir @ ''/'' @ item) children fileName) @ fst (findFile dir items fileName),
      (dir @ ''/'' @ item) # snd (findFile (dir @ ''/'' @ item) children fileName)
        @ snd (findFile dir items fileName))"

definition downloadFile ::
  "string \<Rightarrow> fs_node option \<Rightarrow> string \<Rightarrow> string option \<times> string list" where
  "downloadFile reportDir outputRoot fileName =
     (case outputRoot of
        None \<Rightarrow> (None, [])
      | Some (File bytes) \<Rightarrow> (None, [])
      | Some (Dir items) \<Rightarrow>
          (let (files, reads) = findFile reportDir items fileName
           in (case files of [] \<Rightarrow> None | (path, bytes) # _ \<Rightarrow> Some bytes, reportDir # reads)))"

text \<open>\<open>path.extname\<close> for a name without directory part: from the last dot on, unless
  there is no dot or the only dot is the first character.\<close>

definition extname :: "string \<Rightarrow> string" where
  "extname p =
     (let ext = takeWhile (\<lambda>c. c \<noteq> CHR ''.'') (rev p)
      in if CHR ''.'' \<notin> set p \<or> length ext + 1 = length p then []
         else ''.'' @ rev ext)"

record download_request =
  authenticated :: bool
  fileName :: string

datatype http_response =
  Redirect string
| Json nat string
| SendFile string string

definition contentType :: "string \<Rightarrow> string" where
  "contentType file =
     (let ext = toLowerCase (extname file)
      in if ext = ''.pdf'' then ''application/pdf''
         else if ext = ''.docx''
         then ''application/vnd.openxmlformats-officedocument.wordprocessingml.document''
         else ''application/octet-stream'')"

text \<open>
  The handler: the session check, the file-name check, then the search. The second
  component is the list of directories the request has made the service list.
\<close>

definition download_route ::
  "string \<Rightarrow> fs_node option \<Rightarrow> download_request \<Rightarrow> http_response \<times> string list" where
  "download_route reportDir outputRoot req =
     (if \<not> authenticated req then (Redirect ''/'', [])
      else if fileName req = [] \<or> includes_str (fileName req) ''..''
              \<or> includes_str (fileName req) ''/''
      then (Json 400 ''Invalid file name'', [])
      else case downloadFile reportDir outputRoot (fileName req) of
             (None, reads) \<Rightarrow> (Json 404 (''File '' @ fileName req @ '' not found''), reads)
           | (Some fileBuffer, reads) \<Rightarrow>
               (SendFile (contentType (fileName req)) fileBuffer, reads))"

text \<open>A file named exactly \<open>f\<close> exists somewhere in the tree.\<close>

fun has_file :: "(string \<times> fs_node) list \<Rightarrow> string \<Rightarrow> bool" where
  "has_file [] f = False"
| "has_file ((item, File bytes) # items) f = (item = f \<or> has_file items f)"
| "has_file ((item, Dir children) # items) f = (has_file children f \<or> has_file items f)"


section \<open>Example environments and states\<close>

text \<open>
  A language model that answers with the content of the first message it is given, prompt
  templates that show what they receive, a language model that always fails, a table
  with one completed run and a table with one run in progress.
\<close>

definition echo_llm :: "message list \<Rightarrow> exn + message" where
  "echo_llm ms = (case ms of [] \<Rightarrow> Inl (Fault ''no message'')
                  | m # _ \<Rightarrow> Inr \<lparr>m_type = AI, m_role = None, m_content = m_content m\<rparr>)"

definition feedback_prompts :: reporter_env where
  "feedback_prompts =
     \<lparr>reporter_llm = echo_llm,
      CREATE_ANALYSTS_PROMPT = (\<lambda>topic n feedback. ''Name: '' @ feedback),
      REPORT_WRITER_INSTRUCTIONS = (\<lambda>topic. ''Report on '' @ topic),
      INTRO_CONCLUSION_INSTRUCTIONS = (\<lambda>topic sections. ''About '' @ topic)\<rparr>"


definition failing_llm :: reporter_env where
  "failing_llm =
     \<lparr>reporter_llm = (\<lambda>ms. Inl (Fault ''provider unavailable'')),
      CREATE_ANALYSTS_PROMPT = (\<lambda>topic n feedback. ''Name: '' @ feedback),
      REPORT_WRITER_INSTRUCTIONS = (\<lambda>topic. ''Report on '' @ topic),
      INTRO_CONCLUSION_INSTRUCTIONS = (\<lambda>topic sections. ''About '' @ topic)\<rparr>"

definition completed_run :: workflow where
  "completed_run =
     \<lparr>wf_thread_id = ''thread_1'', wf_topic = ''AI'', wf_max_analysts = 3,
      wf_status = completed, wf_start_time = 0, wf_end_time = Some 1,
      wf_analysts = Some [], wf_sections = Some [], wf_final_report = Some ''Old report'',
      wf_error = None, wf_feedback = None\<rparr>"

definition one_completed_run :: service_state where
  "one_completed_run = \<lparr>workflows = [''run1'' \<mapsto> completed_run], launched = []\<rparr>"

definition running_run :: workflow where
  "running_run =
     \<lparr>wf_thread_id = ''run2'', wf_topic = ''AI'', wf_max_analysts = 3,
      wf_status = in_progress, wf_start_time = 0, wf_end_time = None,
      wf_analysts = None, wf_sections = None, wf_final_report = None,
      wf_error = None, wf_feedback = None\<rparr>"

definition one_running_run :: service_state where
  "one_running_run =
     \<lparr>workflows = [''run2'' \<mapsto> running_run], launched = [(''run2'', ''AI'', 3)]\<rparr>"

definition no_results_env :: interview_env where
  "no_results_env =
     \<lparr>llm_invoke = echo_llm,
      tavily_invoke = (\<lambda>query. Inr (Some [])),
      ANALYST_ASK_QUESTIONS = (\<lambda>persona. ''Ask as '' @ persona),
      GENERATE_SEARCH_QUERY = ''Write a search query'',
      GENERATE_ANSWERS = (\<lambda>persona context. ''Answer from '' @ context),
      WRITE_SECTION = (\<lambda>description. ''Write a section'')\<rparr>"

definition initial_interview :: interview_state where
  "initial_interview =
     \<lparr>messages = [], max_num_turns = 2, context_blocks = [],
      the_analyst = \<lparr>name = ''Ada'', role = ''Chief'', affiliation = ''Lab'',
                      description = ''Ada leads the lab.'', persona = None\<rparr>,
      interview = [], sections = []\<rparr>"

definition report_tree :: "(string \<times> fs_node) list" where
  "report_tree =
     [(''AI_2024'', Dir [(''AI_2024.docx'', File ''docx bytes''),
                         (''AI_2024.pdf'', File ''pdf bytes'')])]"


section \<open>Properties of report assembly\<close>

lemma includes_str_iff: "includes_str s p \<longleftrightarrow> (\<exists>a b. s = a @ p @ b)"
proof (induction s)
  case Nil
  then show ?case by auto
next
  case (Cons c cs)
  show ?case
  proof
    assume "includes_str (c # cs) p"
    then consider "startsWith (c # cs) p" | "includes_str cs p" by auto
    then show "\<exists>a b. c # cs = a @ p @ b"
    proof cases
      case 1
      then have "c # cs = [] @ p @ drop (length p) (c # cs)"
        unfolding startsWith_def by (metis append_Nil append_take_drop_id)
      then show ?thesis by blast
    next
      case 2
      then obtain a b where "cs = a @ p @ b" using Cons.IH by blast
      then have "c # cs = (c # a) @ p @ b" by simp
      then show ?thesis by blast
    qed
  next
    assume "\<exists>a b. c # cs = a @ p @ b"
    then obtain a b where ab: "c # cs = a @ p @ b" by blast
    show "includes_str (c # cs) p"
    proof (cases a)
      case Nil
      then have "startsWith (c # cs) p" using ab by (simp add: startsWith_def)
      then show ?thesis by simp
    next
      case (Cons a0 as)
      then have "cs = as @ p @ b" using ab by simp
      then have "includes_str cs p" using Cons.IH by blast
      then show ?thesis by simp
    qed
  qed
qed

lemma includes_str_drop: "includes_str (drop n s) p \<Longrightarrow> includes_str s p"
proof -
  assume "includes_str (drop n s) p"
  then obtain a b where "drop n s = a @ p @ b" unfolding includes_str_iff by blast
  then have "s = (take n s @ a) @ p @ b" by (metis append_assoc append_take_drop_id)
  then show ?thesis unfolding includes_str_iff by blast
qed

lemma includes_str_trim: "includes_str (trim s) p \<Longrightarrow> includes_str s p"
proof -
  assume "includes_str (trim s) p"
  then obtain a b where ab: "trim s = a @ p @ b" unfolding includes_str_iff by blast
  obtain u where u: "s = u @ dropWhile isWhitespace s" by (metis takeWhile_dropWhile_id)
  let ?m = "dropWhile isWhitespace s"
  obtain v where v: "rev ?m = v @ dropWhile isWhitespace (rev ?m)" by (metis takeWhile_dropWhile_id)
  have "?m = trim s @ rev v" unfolding trim_def using v by (metis rev_append rev_rev_ident)
  then have "s = (u @ a) @ p @ (b @ rev v)" using u ab by (metis append_assoc)
  then show ?thesis unfolding includes_str_iff by blast
qed

lemma replace_first_prefix:
  "startsWith s p \<Longrightarrow> replace_first s p r = r @ drop (length p) s"
  by (cases s) (auto simp: startsWith_def)

lemma strip_no_sources:
  "\<not> includes_str body p \<Longrightarrow> \<not> includes_str (strip_insights body) p"
proof (cases "startsWith body ''## Insights''")
  case True
  assume no: "\<not> includes_str body p"
  have eq: "strip_insights body = trim (drop (length ''## Insights'') body)"
    using True by (simp add: strip_insights_def replace_first_prefix)
  show ?thesis
  proof
    assume "includes_str (strip_insights body) p"
    then have "includes_str (drop (length ''## Insights'') body) p"
      unfolding eq by (rule includes_str_trim)
    then have "includes_str body p" by (rule includes_str_drop)
    with no show False by simp
  qed
next
  case False
  assume "\<not> includes_str body p"
  then show ?thesis using False by (simp add: strip_insights_def)
qed

text \<open>
  C3. \<open>finalizeReport\<close> applied to the body \<open>## Insights\nBody\n## Sources\nSrc1\<close>, the
  introduction \<open>Intro\<close> and the conclusion \<open>Concl\<close> strips the leading heading, moves the
  sources to the end under a new \<open>## Sources\<close> heading and returns exactly
  \<open>Intro\n\n---\n\nBody\n\n---\n\nConcl\n\n## Sources\nSrc1\<close>.
\<close>

theorem finalizeReport_example:
  "finalizeReport ''## Insights\<newline>Body\<newline>## Sources\<newline>Src1'' ''Intro'' ''Concl''
     = ''Intro\<newline>\<newline>---\<newline>\<newline>Body\<newline>\<newline>---\<newline>\<newline>Concl\<newline>\<newline>## Sources\<newline>Src1''
   \<and> strip_insights ''## Insights\<newline>Body\<newline>## Sources\<newline>Src1''
     = ''Body\<newline>## Sources\<newline>Src1''
   \<and> split_sources ''Body\<newline>## Sources\<newline>Src1'' = (''Body'', Some ''Src1'')"
  by (simp add: finalizeReport_def strip_insights_def split_sources_def separator_def
      startsWith_def trim_def isWhitespace_def js_split_def)

lemma two_parts_case:
  "length parts \<noteq> 2 \<Longrightarrow>
   (case parts of [p0, p1] \<Rightarrow> f p0 p1 | _ \<Rightarrow> g) = g"
  by (auto split: list.splits)

lemma split_sources_none:
  "\<not> (includes_str content ''## Sources''
       \<and> length (js_split content ''\<newline>## Sources\<newline>'') = 2)
   \<Longrightarrow> split_sources content = (content, None)"
  by (auto simp: split_sources_def two_parts_case)

text \<open>
  A body in which \<open>## Sources\<close> does not occur at all has no sources block, with or
  without the leading heading.
\<close>

lemma finalizeReport_no_marker:
  assumes "\<not> includes_str body ''## Sources''"
  shows "finalizeReport body [] [] = strip_insights body"
proof -
  have "\<not> includes_str (strip_insights body) ''## Sources''"
    using assms by (rule strip_no_sources)
  then have "split_sources (strip_insights body) = (strip_insights body, None)"
    by (simp add: split_sources_none)
  then show ?thesis by (simp add: finalizeReport_def)
qed

text \<open>
  C8 (as amended). Let the stripped body be the body itself when it does not begin with
  \<open>## Insights\<close>, and otherwise the body with those leading characters removed and the
  rest trimmed. Whenever the stripped body has no sources block (it does not both include
  \<open>## Sources\<close> and split at the line \<open>## Sources\<close> into exactly two parts),
  \<open>finalizeReport body "" ""\<close> is the stripped body, with no separator and no sources
  heading: the body exactly when it does not begin with \<open>## Insights\<close>.
\<close>

theorem finalizeReport_empty_intro_conclusion:
  "(\<not> startsWith body ''## Insights''
      \<and> \<not> (includes_str body ''## Sources''
             \<and> length (js_split body ''\<newline>## Sources\<newline>'') = 2)
    \<longrightarrow> finalizeReport body [] [] = body)
   \<and> (startsWith body ''## Insights''
      \<and> \<not> (includes_str (trim (drop (length ''## Insights'') body)) ''## Sources''
             \<and> length (js_split (trim (drop (length ''## Insights'') body))
                         ''\<newline>## Sources\<newline>'') = 2)
    \<longrightarrow> finalizeReport body [] [] = trim (drop (length ''## Insights'') body))"
proof (intro conjI impI)
  assume a: "\<not> startsWith body ''## Insights''
      \<and> \<not> (includes_str body ''## Sources''
             \<and> length (js_split body ''\<newline>## Sources\<newline>'') = 2)"
  then have "strip_insights body = body" by (simp add: strip_insights_def)
  moreover have "split_sources body = (body, None)"
    using a by (intro split_sources_none) blast
  ultimately show "finalizeReport body [] [] = body"
    by (simp add: finalizeReport_def)
next
  let ?b = "trim (drop (length ''## Insights'') body)"
  assume a: "startsWith body ''## Insights''
      \<and> \<not> (includes_str ?b ''## Sources''
             \<and> length (js_split ?b ''\<newline>## Sources\<newline>'') = 2)"
  then have "strip_insights body = ?b"
    by (simp add: strip_insights_def replace_first_prefix)
  moreover have "split_sources ?b = (?b, None)"
    using a by (intro split_sources_none) blast
  ultimately show "finalizeReport body [] [] = ?b"
    by (simp add: finalizeReport_def)
qed

theorem finalizeReport_empty_intro_conclusion_witness:
  "\<not> startsWith ''See ## Sources below'' ''## Insights''
   \<and> includes_str ''See ## Sources below'' ''## Sources''
   \<and> length (js_split ''See ## Sources below'' ''\<newline>## Sources\<newline>'') = 1
   \<and> finalizeReport ''See ## Sources below'' [] [] = ''See ## Sources below''
   \<and> startsWith ''## Insights\<newline>Body  '' ''## Insights''
   \<and> trim (drop (length ''## Insights'') ''## Insights\<newline>Body  '') = ''Body''
   \<and> \<not> includes_str ''Body'' ''## Sources''
   \<and> finalizeReport ''## Insights\<newline>Body  '' [] [] = ''Body''"
proof -
  have h1: "\<not> startsWith ''See ## Sources below'' ''## Insights''"
    by (simp add: startsWith_def)
  have i1: "includes_str ''See ## Sources below'' ''## Sources''"
    by (simp add: startsWith_def)
  have l1: "length (js_split ''See ## Sources below'' ''\<newline>## Sources\<newline>'') = 1"
    by (simp add: js_split_def startsWith_def)
  have r1: "finalizeReport ''See ## Sources below'' [] [] = ''See ## Sources below''"
    using h1 l1 finalizeReport_empty_intro_conclusion [of "''See ## Sources below''"]
    by simp
  have h2: "startsWith ''## Insights\<newline>Body  '' ''## Insights''"
    by (simp add: startsWith_def)
  have t2: "trim (drop (length ''## Insights'') ''## Insights\<newline>Body  '') = ''Body''"
    by (simp add: trim_def isWhitespace_def)
  have n2: "\<not> includes_str ''Body'' ''## Sources''"
    by (simp add: startsWith_def)
  have r2: "finalizeReport ''## Insights\<newline>Body  '' [] [] = ''Body''"
    using h2 t2 n2 finalizeReport_empty_intro_conclusion [of "''## Insights\<newline>Body  ''"]
    by simp
  show ?thesis using h1 i1 l1 r1 h2 t2 n2 r2 by blast
qed

text \<open>
  The claim as first stated (the output equals the body for every body without a sources
  block) fails on a body that begins with the \<open>## Insights\<close> heading.
\<close>

theorem finalizeReport_insights_counterexample:
  "\<not> includes_str ''## Insights\<newline>Body'' ''## Sources''
   \<and> finalizeReport ''## Insights\<newline>Body'' [] [] = ''Body''
   \<and> finalizeReport ''## Insights\<newline>Body'' [] [] \<noteq> ''## Insights\<newline>Body''"
  by (simp add: finalizeReport_def strip_insights_def split_sources_def separator_def
      startsWith_def trim_def isWhitespace_def js_split_def)

section \<open>Properties of document export\<close>

text \<open>
  On a line without white space at either end both encoders test the same string, and
  every operation the paginated encoder draws for it shows the classification the
  structured encoder gives it.
\<close>

lemma wrap_words_body_ops:
  "wrap_words w ws cur y ops = (cur', y', ops') \<Longrightarrow>
   \<exists>new. ops' = ops @ new \<and> (\<forall>op \<in> set new. pdf_heading op = None)"
proof (induction ws arbitrary: cur y ops)
  case Nil
  then show ?case by simp
next
  case (Cons word ws)
  let ?t = "if cur \<noteq> [] then cur @ '' '' @ word else word"
  show ?case
  proof (cases "w ?t > 500")
    case True
    then have "wrap_words w ws word (y + lineHeight) (ops @ [DrawText 11 False cur 50 y])
               = (cur', y', ops')"
      using Cons.prems by (simp add: Let_def)
    from Cons.IH [OF this] obtain new where
      "ops' = (ops @ [DrawText 11 False cur 50 y]) @ new" "\<forall>op \<in> set new. pdf_heading op = None"
      by blast
    then have "ops' = ops @ (DrawText 11 False cur 50 y # new)
               \<and> (\<forall>op \<in> set (DrawText 11 False cur 50 y # new). pdf_heading op = None)"
      by simp
    then show ?thesis by blast
  next
    case False
    then have "wrap_words w ws ?t y ops = (cur', y', ops')"
      using Cons.prems by (simp add: Let_def)
    from Cons.IH [OF this] show ?thesis .
  qed
qed

lemma encoders_agree_on_trimmed_line:
  assumes "trim line = line" and "line \<noteq> []"
  shows "\<exists>new. snd (pdf_line w (y, ops) line) = ops @ new
           \<and> (\<forall>op \<in> set new. op = AddPage \<or> pdf_heading op = heading (docx_paragraph line))"
proof -
  define y1 where "y1 = (if y > pageHeight - bottomMargin then 50 else y)"
  define ops1 where "ops1 = (if y > pageHeight - bottomMargin then ops @ [AddPage] else ops)"
  obtain pre where pre: "ops1 = ops @ pre" "\<forall>op \<in> set pre. op = AddPage"
    by (cases "y > pageHeight - bottomMargin") (auto simp: ops1_def)
  have page: "(if y > pageHeight - bottomMargin then (50, ops @ [AddPage]) else (y, ops)) = (y1, ops1)"
    by (simp add: y1_def ops1_def)
  consider (h1) "startsWith line ''# ''"
    | (h2) "\<not> startsWith line ''# ''" "startsWith line ''## ''"
    | (h3) "\<not> startsWith line ''# ''" "\<not> startsWith line ''## ''" "startsWith line ''### ''"
    | (wrap) "\<not> startsWith line ''# ''" "\<not> startsWith line ''## ''" "\<not> startsWith line ''### ''"
             "w line > 500"
    | (short) "\<not> startsWith line ''# ''" "\<not> startsWith line ''## ''" "\<not> startsWith line ''### ''"
             "\<not> w line > 500"
    by blast
  then show ?thesis
  proof cases
    case h1
    then have "snd (pdf_line w (y, ops) line) = ops @ (pre @ [DrawText 16 True (drop 2 line) 50 y1])"
      using assms pre by (simp add: pdf_line_def page)
    moreover have "heading (docx_paragraph line) = Some HEADING_1"
      using h1 by (simp add: docx_paragraph_def)
    then have "\<forall>op \<in> set (pre @ [DrawText 16 True (drop 2 line) 50 y1]).
                 op = AddPage \<or> pdf_heading op = heading (docx_paragraph line)"
      using pre by auto
    ultimately show ?thesis by blast
  next
    case h2
    then have "snd (pdf_line w (y, ops) line) = ops @ (pre @ [DrawText 13 True (drop 3 line) 50 y1])"
      using assms pre by (simp add: pdf_line_def page)
    moreover have "heading (docx_paragraph line) = Some HEADING_2"
      using h2 by (simp add: docx_paragraph_def)
    then have "\<forall>op \<in> set (pre @ [DrawText 13 True (drop 3 line) 50 y1]).
                 op = AddPage \<or> pdf_heading op = heading (docx_paragraph line)"
      using pre by auto
    ultimately show ?thesis by blast
  next
    case h3
    then have "snd (pdf_line w (y, ops) line) = ops @ (pre @ [DrawText 11 True (drop 4 line) 50 y1])"
      using assms pre by (simp add: pdf_line_def page)
    moreover have "heading (docx_paragraph line) = Some HEADING_3"
      using h3 by (simp add: docx_paragraph_def)
    then have "\<forall>op \<in> set (pre @ [DrawText 11 True (drop 4 line) 50 y1]).
                 op = AddPage \<or> pdf_heading op = heading (docx_paragraph line)"
      using pre by auto
    ultimately show ?thesis by blast
  next
    case short
    then have "snd (pdf_line w (y, ops) line) = ops @ (pre @ [DrawText 11 False line 50 y1])"
      using assms pre by (simp add: pdf_line_def page)
    moreover have "heading (docx_paragraph line) = None"
      using short by (simp add: docx_paragraph_def)
    then have "\<forall>op \<in> set (pre @ [DrawText 11 False line 50 y1]).
                 op = AddPage \<or> pdf_heading op = heading (docx_paragraph line)"
      using pre by auto
    ultimately show ?thesis by blast
  next
    case wrap
    obtain cur' y' ops' where ww: "wrap_words w (js_split line '' '') [] y1 ops1 = (cur', y', ops')"
      by (cases "wrap_words w (js_split line '' '') [] y1 ops1") auto
    from wrap_words_body_ops [OF ww] obtain new where
      new: "ops' = ops1 @ new" "\<forall>op \<in> set new. pdf_heading op = None" by blast
    have "snd (pdf_line w (y, ops) line)
          = ops @ (pre @ new @ (if cur' \<noteq> [] then [DrawText 11 False cur' 50 y'] else []))"
      using assms pre wrap ww new by (simp add: pdf_line_def page)
    moreover have "heading (docx_paragraph line) = None"
      using wrap by (simp add: docx_paragraph_def)
    then have "\<forall>op \<in> set (pre @ new @ (if cur' \<noteq> [] then [DrawText 11 False cur' 50 y'] else [])).
                 op = AddPage \<or> pdf_heading op = heading (docx_paragraph line)"
      using pre new by auto
    ultimately show ?thesis by blast
  qed
qed

text \<open>
  C5. The claim is that both encoders give every line of the same text the same
  classification. On the text \<open>  # Title\<close> (a heading indented by two spaces) they do
  not: the structured encoder tests the untrimmed line and makes a body paragraph, the
  paginated encoder tests the trimmed line and draws a level-1 heading.
\<close>

theorem encoders_disagree_on_indented_heading:
  "map heading (saveAsDocx_paragraphs ''  # Title'') = [None]
   \<and> map pdf_heading (snd (saveAsPdf_render widthOfString ''  # Title'')) = [Some HEADING_1]"
  by (simp add: saveAsDocx_paragraphs_def docx_paragraph_def saveAsPdf_render_def pdf_line_def
      js_split_def startsWith_def trim_def isWhitespace_def pageHeight_def bottomMargin_def)

text \<open>
  C4. The claim is that no line is drawn with the cursor beyond the printable area
  (page height minus bottom margin, 742). With a width of 6 points per character, 46 blank
  lines bring the cursor to 740; the next line, two words of 50 characters, is wider than
  500 points and is wrapped into two drawn lines. The page check runs once, before the
  first of them; the second is drawn at 755 with no page break.
\<close>

theorem saveAsPdf_wrapped_line_beyond_page:
  "saveAsPdf_render (\<lambda>s. 6 * real (length s))
     (replicate 46 CHR 0x0A @ replicate 50 CHR ''x'' @ '' '' @ replicate 50 CHR ''x'')
   = (770, [DrawText 11 False (replicate 50 CHR ''x'') 50 740,
            DrawText 11 False (replicate 50 CHR ''x'') 50 755])
   \<and> (755::real) > pageHeight - bottomMargin"
  by code_simp

section \<open>Properties of persona parsing\<close>

lemma val_or_nonempty: "d \<noteq> [] \<Longrightarrow> val_or v d \<noteq> []"
  by (auto simp: val_or_def str_or_def split: option.splits js_val.splits)

lemma opt_or_nonempty: "d \<noteq> [] \<Longrightarrow> opt_or v d \<noteq> []"
  by (auto simp: opt_or_def str_or_def split: option.splits)

lemma completeAnalyst_fields: "fields_nonempty (completeAnalyst a)"
  by (simp add: fields_nonempty_def completeAnalyst_def val_or_nonempty)

lemma flush_fields:
  "\<forall>a \<in> set analysts. fields_nonempty a \<Longrightarrow> \<forall>a \<in> set (flush analysts cur). fields_nonempty a"
  by (auto simp: flush_def completeAnalyst_fields)

lemma parse_line_fields:
  assumes "\<forall>a \<in> set (fst st). fields_nonempty a"
  shows "\<forall>a \<in> set (fst (parse_line st line)). fields_nonempty a"
proof -
  obtain analysts cur where st: "st = (analysts, cur)" by (cases st)
  have "\<forall>a \<in> set (flush analysts cur). fields_nonempty a"
    using assms st by (simp add: flush_fields)
  then show ?thesis using assms st by (simp add: parse_line_def Let_def)
qed

lemma foldl_parse_line_fields:
  "\<forall>a \<in> set (fst st). fields_nonempty a \<Longrightarrow>
   \<forall>a \<in> set (fst (foldl parse_line st ls)). fields_nonempty a"
proof (induction ls arbitrary: st)
  case Nil
  then show ?case by simp
next
  case (Cons l ls)
  have "\<forall>a \<in> set (fst (parse_line st l)). fields_nonempty a"
    using Cons.prems by (rule parse_line_fields)
  then show ?case using Cons.IH by simp
qed

lemma fallback_analyst_fields: "fields_nonempty (fallback_analyst uniqueNames i)"
  by (simp add: fields_nonempty_def fallback_analyst_def Let_def opt_or_nonempty)

lemma createAnalystsFromContent_fields:
  "\<forall>a \<in> set (createAnalystsFromContent content). fields_nonempty a"
  by (auto simp: createAnalystsFromContent_def Let_def fallback_analyst_fields)

lemma createAnalystsFromContent_length: "length (createAnalystsFromContent content) = 3"
  by (simp add: createAnalystsFromContent_def Let_def)

text \<open>
  C6. For every input string the parser returns at least one analyst, and every analyst
  it returns has a non-empty name, role, affiliation and description. The parser is a
  total function with no failing branch: none of the string operations of the source can
  throw.
\<close>

theorem parseAnalystsFromResponse_complete:
  "length (parseAnalystsFromResponse content) \<ge> 1
   \<and> (\<forall>a \<in> set (parseAnalystsFromResponse content).
         name a \<noteq> [] \<and> role a \<noteq> [] \<and> affiliation a \<noteq> [] \<and> description a \<noteq> [])"
proof -
  obtain analysts cur where f:
    "foldl parse_line ([], empty_partial) (js_split content ''\<newline>'') = (analysts, cur)"
    by (cases "foldl parse_line ([], empty_partial) (js_split content ''\<newline>'')")
  define analysts' where
    "analysts' = (if truthy (p_name cur) then analysts @ [completeAnalyst cur] else analysts)"
  have res: "parseAnalystsFromResponse content =
             (if analysts' = [] then createAnalystsFromContent content else analysts')"
    by (simp add: parseAnalystsFromResponse_def f analysts'_def Let_def)
  have "\<forall>a \<in> set (fst (foldl parse_line ([], empty_partial) (js_split content ''\<newline>''))).
          fields_nonempty a"
    by (rule foldl_parse_line_fields) simp
  then have "\<forall>a \<in> set analysts. fields_nonempty a" by (simp add: f)
  then have loop: "\<forall>a \<in> set analysts'. fields_nonempty a"
    by (simp add: analysts'_def completeAnalyst_fields)
  have len: "length (parseAnalystsFromResponse content) \<ge> 1"
  proof (cases "analysts' = []")
    case True
    then show ?thesis by (simp add: res createAnalystsFromContent_length)
  next
    case False
    then show ?thesis by (cases analysts') (simp_all add: res)
  qed
  have "\<forall>a \<in> set (parseAnalystsFromResponse content). fields_nonempty a"
    using loop createAnalystsFromContent_fields by (simp add: res)
  then show ?thesis using len by (simp add: fields_nonempty_def)
qed

theorem parseAnalystsFromResponse_complete_witness:
  "parseAnalystsFromResponse ''Name: Ada\<newline>Role: Chief'' =
     [\<lparr>name = ''Ada'', role = ''Chief'', affiliation = ''AI Research Institute'',
       description = ''Ada provides expert analysis on the topic.''\<rparr>]
   \<and> length (parseAnalystsFromResponse ''Name: Ada\<newline>Role: Chief'') \<ge> 1
   \<and> name (hd (parseAnalystsFromResponse ''Name: Ada\<newline>Role: Chief'')) \<noteq> []
   \<and> role (hd (parseAnalystsFromResponse ''Name: Ada\<newline>Role: Chief'')) \<noteq> []
   \<and> affiliation (hd (parseAnalystsFromResponse ''Name: Ada\<newline>Role: Chief'')) \<noteq> []
   \<and> description (hd (parseAnalystsFromResponse ''Name: Ada\<newline>Role: Chief'')) \<noteq> []"
proof -
  have ev: "parseAnalystsFromResponse ''Name: Ada\<newline>Role: Chief'' =
     [\<lparr>name = ''Ada'', role = ''Chief'', affiliation = ''AI Research Institute'',
       description = ''Ada provides expert analysis on the topic.''\<rparr>]"
    by code_simp
  then have mem: "hd (parseAnalystsFromResponse ''Name: Ada\<newline>Role: Chief'')
                  \<in> set (parseAnalystsFromResponse ''Name: Ada\<newline>Role: Chief'')"
    by simp
  show ?thesis
    using ev mem parseAnalystsFromResponse_complete [of "''Name: Ada\<newline>Role: Chief''"]
    by blast
qed

section \<open>Properties of the interview pipeline\<close>

text \<open>
  Whenever the query generation and the web search both succeed and the search returns no
  documents (an empty list, or nothing), \<open>searchWeb\<close> throws: the logger has no method
  \<open>warning\<close>, and the placeholder entry is never returned.
\<close>

lemma searchWeb_zero_results_throws:
  assumes "llm_invoke env (SystemMessage (GENERATE_SEARCH_QUERY env) # messages s) = Inr q"
    and "tavily_invoke env (m_content q) = Inr docs"
    and "docs = None \<or> docs = Some []"
  shows "searchWeb env s =
           Inl (ResearchAnalystException ''Failed during web search execution''
                  (TypeError ''this.logger.warning is not a function''))"
  using assms
  by (auto simp: searchWeb_def no_results_found_def logger_call_def logger_methods_def)

text \<open>
  C7. The claim is that a search that succeeds with no results appends the one context
  entry \<open>[No search results found.]\<close> and lets the pipeline go on, and that the step throws
  only when the query generation or the search invocation fails. With a language model
  that answers and a search that returns the empty list, \<open>searchWeb\<close> throws
  \<open>Failed during web search execution\<close>: the no-results branch calls
  \<open>this.logger.warning\<close>, which the logger does not have, before it can return the entry.
\<close>

theorem searchWeb_no_results_throws:
  "llm_invoke no_results_env
      (SystemMessage (GENERATE_SEARCH_QUERY no_results_env) # messages initial_interview)
     = Inr \<lparr>m_type = AI, m_role = None, m_content = ''Write a search query''\<rparr>
   \<and> tavily_invoke no_results_env ''Write a search query'' = Inr (Some [])
   \<and> searchWeb no_results_env initial_interview
       = Inl (ResearchAnalystException ''Failed during web search execution''
                (TypeError ''this.logger.warning is not a function''))"
  by (simp add: searchWeb_def no_results_found_def logger_call_def logger_methods_def
      no_results_env_def initial_interview_def echo_llm_def SystemMessage_def)


section \<open>Properties of the workflow coordinator\<close>

text \<open>
  While the re-execution that \<open>submitFeedback\<close> awaits is pending the stored status is the
  one the run had before, and the table that \<open>submitFeedback\<close> leaves does not depend on
  the feedback text, except for the field that stores it.
\<close>

lemma record_feedback_keeps_status:
  "map_option wf_status (workflows (record_feedback threadId feedback w st) threadId)
   = Some (wf_status w)"
  by (simp add: record_feedback_def)

lemma submitFeedback_ignores_feedback_text:
  "map_option (wf_feedback_update (\<lambda>_. None))
     (workflows (snd (submitFeedback env now genId threadId feedback1 st)) t)
   = map_option (wf_feedback_update (\<lambda>_. None))
     (workflows (snd (submitFeedback env now genId threadId feedback2 st)) t)"
  by (auto simp: submitFeedback_def record_feedback_def executeWorkflow_def
           split: option.splits sum.splits)

lemma reporter_with_feedback:
  "reporter_executeWorkflow feedback_prompts ''g2'' ''AI'' 3 (Some ''Ada Lovelace'') =
     Inr \<lparr>r_thread_id = ''g2'',
          r_analysts = [\<lparr>name = ''Ada Lovelace'', role = ''Research Analyst'',
                         affiliation = ''AI Research Institute'',
                         description = ''Ada Lovelace provides expert analysis on the topic.''\<rparr>],
          r_sections = [''## Section: Ada Lovelace\<newline>Analysis from Research Analyst at AI Research Institute.\<newline>\<newline>Ada Lovelace provides expert analysis on the topic.\<newline>\<newline>Mock interview content would go here.''],
          r_final_report = ''About AI\<newline>\<newline>---\<newline>\<newline>Report on AI\<newline>\<newline>---\<newline>\<newline>About AI''\<rparr>"
  by code_simp

lemma reporter_without_feedback:
  "reporter_executeWorkflow feedback_prompts ''g2'' ''AI'' 3 None =
     Inr \<lparr>r_thread_id = ''g2'',
          r_analysts = [\<lparr>name = ''Unknown Analyst'', role = ''Research Analyst'',
                         affiliation = ''AI Research Institute'',
                         description = ''Unknown Analyst provides expert analysis on the topic.''\<rparr>],
          r_sections = [''## Section: Unknown Analyst\<newline>Analysis from Research Analyst at AI Research Institute.\<newline>\<newline>Unknown Analyst provides expert analysis on the topic.\<newline>\<newline>Mock interview content would go here.''],
          r_final_report = ''About AI\<newline>\<newline>---\<newline>\<newline>Report on AI\<newline>\<newline>---\<newline>\<newline>About AI''\<rparr>"
  by code_simp

lemma executeWorkflow_status:
  "workflows st threadId = Some w \<Longrightarrow>
   \<exists>w'. workflows (executeWorkflow env now genId threadId topic maxAnalysts st) threadId = Some w'
        \<and> (wf_status w' = completed \<or> wf_status w' = error)"
  by (auto simp: executeWorkflow_def split: sum.splits)

lemma executeWorkflow_outcome:
  assumes "workflows st threadId = Some w"
  shows "workflows (executeWorkflow env now genId threadId topic maxAnalysts st) threadId =
           Some (case reporter_executeWorkflow env genId topic maxAnalysts None of
                   Inr result \<Rightarrow>
                     \<lparr>wf_thread_id = r_thread_id result, wf_topic = wf_topic w,
                      wf_max_analysts = wf_max_analysts w, wf_status = completed,
                      wf_start_time = wf_start_time w, wf_end_time = Some now,
                      wf_analysts = Some (r_analysts result),
                      wf_sections = Some (r_sections result),
                      wf_final_report = Some (r_final_report result),
                      wf_error = wf_error w, wf_feedback = wf_feedback w\<rparr>
                 | Inl e \<Rightarrow>
                     \<lparr>wf_thread_id = wf_thread_id w, wf_topic = wf_topic w,
                      wf_max_analysts = wf_max_analysts w, wf_status = error,
                      wf_start_time = wf_start_time w, wf_end_time = Some now,
                      wf_analysts = wf_analysts w, wf_sections = wf_sections w,
                      wf_final_report = wf_final_report w,
                      wf_error = Some (exn_message e), wf_feedback = wf_feedback w\<rparr>)"
  using assms by (cases w) (simp add: executeWorkflow_def split: sum.splits)

text \<open>
  C10. Whenever \<open>submitFeedback\<close> returns a success result, the run was in the table and
  the stored run is already the outcome of a full execution of the report workflow on the
  run's topic: when the workflow returns, its thread identifier, analysts, sections and
  final report with the status \<open>completed\<close>; when it throws, the message of the exception
  with the status \<open>error\<close>; in both cases the end time and the feedback text.
  \<open>startReportGeneration\<close> returns success while the stored run has the status
  \<open>in_progress\<close> and no result, and the execution it launched is still pending.
\<close>

theorem submitFeedback_awaits_execution:
  "(success (fst (submitFeedback env now genId threadId feedback st)) \<longrightarrow>
      (\<exists>w w'. workflows st threadId = Some w
           \<and> workflows (snd (submitFeedback env now genId threadId feedback st)) threadId
               = Some w'
           \<and> (wf_status w' = completed \<or> wf_status w' = error)
           \<and> w' = (case reporter_executeWorkflow env genId (wf_topic w) (wf_max_analysts w)
                            None of
                    Inr result \<Rightarrow>
                      \<lparr>wf_thread_id = r_thread_id result, wf_topic = wf_topic w,
                       wf_max_analysts = wf_max_analysts w, wf_status = completed,
                       wf_start_time = wf_start_time w, wf_end_time = Some now,
                       wf_analysts = Some (r_analysts result),
                       wf_sections = Some (r_sections result),
                       wf_final_report = Some (r_final_report result),
                       wf_error = wf_error w, wf_feedback = Some feedback\<rparr>
                  | Inl e \<Rightarrow>
                      \<lparr>wf_thread_id = wf_thread_id w, wf_topic = wf_topic w,
                       wf_max_analysts = wf_max_analysts w, wf_status = error,
                       wf_start_time = wf_start_time w, wf_end_time = Some now,
                       wf_analysts = wf_analysts w, wf_sections = wf_sections w,
                       wf_final_report = wf_final_report w,
                       wf_error = Some (exn_message e), wf_feedback = Some feedback\<rparr>)))
   \<and> success (fst (startReportGeneration now threadId topic maxAnalysts st))
   \<and> workflows (snd (startReportGeneration now threadId topic maxAnalysts st)) threadId
       = Some \<lparr>wf_thread_id = threadId, wf_topic = topic, wf_max_analysts = maxAnalysts,
                wf_status = in_progress, wf_start_time = now, wf_end_time = None,
                wf_analysts = None, wf_sections = None, wf_final_report = None,
                wf_error = None, wf_feedback = None\<rparr>
   \<and> launched (snd (startReportGeneration now threadId topic maxAnalysts st))
       = launched st @ [(threadId, topic, maxAnalysts)]"
proof (intro conjI impI)
  assume ok: "success (fst (submitFeedback env now genId threadId feedback st))"
  then obtain w where w: "workflows st threadId = Some w"
    by (cases "workflows st threadId") (auto simp: submitFeedback_def)
  let ?st1 = "record_feedback threadId feedback w st"
  have st1: "workflows ?st1 threadId = Some (w\<lparr>wf_feedback := Some feedback\<rparr>)"
    by (simp add: record_feedback_def)
  have res: "snd (submitFeedback env now genId threadId feedback st)
             = executeWorkflow env now genId threadId (wf_topic w) (wf_max_analysts w) ?st1"
    using w by (simp add: submitFeedback_def)
  obtain w' where w': "workflows (snd (submitFeedback env now genId threadId feedback st)) threadId
                        = Some w'"
      and terminal: "wf_status w' = completed \<or> wf_status w' = error"
    using executeWorkflow_status [OF st1] res by metis
  have out: "w' = (case reporter_executeWorkflow env genId (wf_topic w) (wf_max_analysts w)
                            None of
                    Inr result \<Rightarrow>
                      \<lparr>wf_thread_id = r_thread_id result, wf_topic = wf_topic w,
                       wf_max_analysts = wf_max_analysts w, wf_status = completed,
                       wf_start_time = wf_start_time w, wf_end_time = Some now,
                       wf_analysts = Some (r_analysts result),
                       wf_sections = Some (r_sections result),
                       wf_final_report = Some (r_final_report result),
                       wf_error = wf_error w, wf_feedback = Some feedback\<rparr>
                  | Inl e \<Rightarrow>
                      \<lparr>wf_thread_id = wf_thread_id w, wf_topic = wf_topic w,
                       wf_max_analysts = wf_max_analysts w, wf_status = error,
                       wf_start_time = wf_start_time w, wf_end_time = Some now,
                       wf_analysts = wf_analysts w, wf_sections = wf_sections w,
                       wf_final_report = wf_final_report w,
                       wf_error = Some (exn_message e), wf_feedback = Some feedback\<rparr>)"
    using executeWorkflow_outcome [OF st1, of env now genId "wf_topic w" "wf_max_analysts w"]
          w' res
    by (simp split: sum.splits)
  show "\<exists>w w'. workflows st threadId = Some w
           \<and> workflows (snd (submitFeedback env now genId threadId feedback st)) threadId
               = Some w'
           \<and> (wf_status w' = completed \<or> wf_status w' = error)
           \<and> w' = (case reporter_executeWorkflow env genId (wf_topic w) (wf_max_analysts w)
                            None of
                    Inr result \<Rightarrow>
                      \<lparr>wf_thread_id = r_thread_id result, wf_topic = wf_topic w,
                       wf_max_analysts = wf_max_analysts w, wf_status = completed,
                       wf_start_time = wf_start_time w, wf_end_time = Some now,
                       wf_analysts = Some (r_analysts result),
                       wf_sections = Some (r_sections result),
                       wf_final_report = Some (r_final_report result),
                       wf_error = wf_error w, wf_feedback = Some feedback\<rparr>
                  | Inl e \<Rightarrow>
                      \<lparr>wf_thread_id = wf_thread_id w, wf_topic = wf_topic w,
                       wf_max_analysts = wf_max_analysts w, wf_status = error,
                       wf_start_time = wf_start_time w, wf_end_time = Some now,
                       wf_analysts = wf_analysts w, wf_sections = wf_sections w,
                       wf_final_report = wf_final_report w,
                       wf_error = Some (exn_message e), wf_feedback = Some feedback\<rparr>)"
    using w w' terminal out by blast
qed (simp_all add: startReportGeneration_def)

theorem submitFeedback_awaits_execution_witness:
  "success (fst (submitFeedback feedback_prompts 2 ''g2'' ''run2'' ''Ada Lovelace''
                   one_running_run))
   \<and> workflows one_running_run ''run2'' = Some running_run
   \<and> wf_status running_run = in_progress
   \<and> workflows (snd (submitFeedback feedback_prompts 2 ''g2'' ''run2'' ''Ada Lovelace''
                        one_running_run)) ''run2''
       = Some \<lparr>wf_thread_id = ''g2'', wf_topic = ''AI'', wf_max_analysts = 3,
                wf_status = completed, wf_start_time = 0, wf_end_time = Some 2,
                wf_analysts =
                  Some [\<lparr>name = ''Unknown Analyst'', role = ''Research Analyst'',
                         affiliation = ''AI Research Institute'',
                         description = ''Unknown Analyst provides expert analysis on the topic.''\<rparr>],
                wf_sections =
                  Some [''## Section: Unknown Analyst\<newline>Analysis from Research Analyst at AI Research Institute.\<newline>\<newline>Unknown Analyst provides expert analysis on the topic.\<newline>\<newline>Mock interview content would go here.''],
                wf_final_report =
                  Some ''About AI\<newline>\<newline>---\<newline>\<newline>Report on AI\<newline>\<newline>---\<newline>\<newline>About AI'',
                wf_error = None, wf_feedback = Some ''Ada Lovelace''\<rparr>
   \<and> success (fst (submitFeedback failing_llm 2 ''g2'' ''run2'' ''more detail''
                       one_running_run))
   \<and> workflows (snd (submitFeedback failing_llm 2 ''g2'' ''run2'' ''more detail''
                        one_running_run)) ''run2''
       = Some \<lparr>wf_thread_id = ''run2'', wf_topic = ''AI'', wf_max_analysts = 3,
                wf_status = error, wf_start_time = 0, wf_end_time = Some 2,
                wf_analysts = None, wf_sections = None, wf_final_report = None,
                wf_error = Some ''Workflow execution failed'',
                wf_feedback = Some ''more detail''\<rparr>"
proof -
  have h1: "success (fst (submitFeedback feedback_prompts 2 ''g2'' ''run2'' ''Ada Lovelace''
                            one_running_run))"
    by (simp add: submitFeedback_def one_running_run_def)
  have h2: "success (fst (submitFeedback failing_llm 2 ''g2'' ''run2'' ''more detail''
                            one_running_run))"
    by (simp add: submitFeedback_def one_running_run_def)
  have w: "workflows one_running_run ''run2'' = Some running_run"
    by (simp add: one_running_run_def)
  have f: "reporter_executeWorkflow failing_llm ''g2'' ''AI'' 3 None
           = Inl (ResearchAnalystException ''Workflow execution failed''
                    (ResearchAnalystException ''Failed to create analysts''
                       (Fault ''provider unavailable'')))"
    by (simp add: reporter_executeWorkflow_def createAnalysts_def failing_llm_def
        workflow_failed_def)
  have r1: "workflows (snd (submitFeedback feedback_prompts 2 ''g2'' ''run2'' ''Ada Lovelace''
                        one_running_run)) ''run2''
       = Some \<lparr>wf_thread_id = ''g2'', wf_topic = ''AI'', wf_max_analysts = 3,
                wf_status = completed, wf_start_time = 0, wf_end_time = Some 2,
                wf_analysts =
                  Some [\<lparr>name = ''Unknown Analyst'', role = ''Research Analyst'',
                         affiliation = ''AI Research Institute'',
                         description = ''Unknown Analyst provides expert analysis on the topic.''\<rparr>],
                wf_sections =
                  Some [''## Section: Unknown Analyst\<newline>Analysis from Research Analyst at AI Research Institute.\<newline>\<newline>Unknown Analyst provides expert analysis on the topic.\<newline>\<newline>Mock interview content would go here.''],
                wf_final_report =
                  Some ''About AI\<newline>\<newline>---\<newline>\<newline>Report on AI\<newline>\<newline>---\<newline>\<newline>About AI'',
                wf_error = None, wf_feedback = Some ''Ada Lovelace''\<rparr>"
    using h1 w reporter_without_feedback
      submitFeedback_awaits_execution
        [of feedback_prompts 2 "''g2''" "''run2''" "''Ada Lovelace''" one_running_run]
    by (auto simp: running_run_def)
  have r2: "workflows (snd (submitFeedback failing_llm 2 ''g2'' ''run2'' ''more detail''
                        one_running_run)) ''run2''
       = Some \<lparr>wf_thread_id = ''run2'', wf_topic = ''AI'', wf_max_analysts = 3,
                wf_status = error, wf_start_time = 0, wf_end_time = Some 2,
                wf_analysts = None, wf_sections = None, wf_final_report = None,
                wf_error = Some ''Workflow execution failed'',
                wf_feedback = Some ''more detail''\<rparr>"
    using h2 w f
      submitFeedback_awaits_execution
        [of failing_llm 2 "''g2''" "''run2''" "''more detail''" one_running_run]
    by (auto simp: running_run_def)
  have s: "wf_status running_run = in_progress" by (simp add: running_run_def)
  show ?thesis using h1 h2 w s r1 r2 by blast
qed

text \<open>
  C2. The claim is that a feedback resubmission resets the status to \<open>in_progress\<close> before
  the re-execution, so that the only transitions are \<open>in_progress\<close> to \<open>completed\<close> or
  \<open>error\<close> and back. \<open>submitFeedback\<close> does not touch the status: on a completed run, with
  a language model that fails, the status is still \<open>completed\<close> while the re-execution is
  pending and then becomes \<open>error\<close>.
\<close>

theorem submitFeedback_status_not_reset:
  "map_option wf_status
     (workflows (record_feedback ''run1'' ''more detail'' completed_run one_completed_run) ''run1'')
     = Some completed
   \<and> map_option wf_status
       (workflows (snd (submitFeedback failing_llm 2 ''g2'' ''run1'' ''more detail''
                          one_completed_run)) ''run1'')
     = Some error"
  by (simp add: submitFeedback_def record_feedback_def executeWorkflow_def one_completed_run_def
      completed_run_def reporter_executeWorkflow_def createAnalysts_def failing_llm_def
      workflow_failed_def)

text \<open>
  C1. The claim is that the feedback text reaches persona generation as
  \<open>human_analyst_feedback\<close>. \<open>submitFeedback\<close> stores the text on the run but calls the
  workflow without it. With a prompt template that shows the feedback and a language model
  that echoes its prompt, the feedback \<open>Ada Lovelace\<close> would give an analyst of that name
  (as the generator does when it is handed the feedback); the re-executed run has the
  analyst \<open>Unknown Analyst\<close> of an empty feedback.
\<close>

theorem submitFeedback_feedback_not_forwarded:
  "map_option wf_feedback
     (workflows (snd (submitFeedback feedback_prompts 2 ''g2'' ''run1'' ''Ada Lovelace''
                        one_completed_run)) ''run1'')
     = Some (Some ''Ada Lovelace'')
   \<and> map_option (map_option (map name) \<circ> wf_analysts)
       (workflows (snd (submitFeedback feedback_prompts 2 ''g2'' ''run1'' ''Ada Lovelace''
                          one_completed_run)) ''run1'')
     = Some (Some [''Unknown Analyst''])
   \<and> map_sum id (map name \<circ> r_analysts)
       (reporter_executeWorkflow feedback_prompts ''g2'' ''AI'' 3 (Some ''Ada Lovelace''))
     = Inr [''Ada Lovelace'']"
  by (simp add: submitFeedback_def record_feedback_def executeWorkflow_def one_completed_run_def
      completed_run_def reporter_with_feedback reporter_without_feedback)


section \<open>Properties of the download operation\<close>

lemma findFile_empty_iff: "fst (findFile dir items f) = [] \<longleftrightarrow> \<not> has_file items f"
  by (induction dir items f rule: findFile.induct) (auto split: prod.splits)

lemma findFile_exact_name:
  "(path, bytes) \<in> set (fst (findFile dir items f)) \<Longrightarrow> \<exists>d. path = d @ ''/'' @ f"
  by (induction dir items f arbitrary: path bytes rule: findFile.induct)
     (auto split: prod.splits if_splits)

text \<open>
  C9. A request whose file name contains \<open>..\<close> or \<open>/\<close> is rejected with no directory
  listed and no file contents returned (status 400; a request without a session is
  redirected). Otherwise (a request with a session, whose name is not empty) the output
  root is searched recursively for a file of exactly that name: the first match is sent,
  and not-found (status 404) is reported exactly when no file of that name exists in the
  tree, or the output root is missing.
\<close>

theorem download_route_traversal:
  "(includes_str (fileName req) ''..'' \<or> includes_str (fileName req) ''/'' \<longrightarrow>
      download_route reportDir outputRoot req
        = (if authenticated req then Json 400 ''Invalid file name'' else Redirect ''/'', []))
   \<and> (authenticated req \<and> fileName req \<noteq> [] \<and> \<not> includes_str (fileName req) ''..''
        \<and> \<not> includes_str (fileName req) ''/'' \<longrightarrow>
        download_route reportDir (Some (Dir items)) req
          = (case fst (findFile reportDir items (fileName req)) of
               [] \<Rightarrow> Json 404 (''File '' @ fileName req @ '' not found'')
             | (path, bytes) # _ \<Rightarrow> SendFile (contentType (fileName req)) bytes,
             reportDir # snd (findFile reportDir items (fileName req)))
        \<and> (fst (findFile reportDir items (fileName req)) = [] \<longleftrightarrow>
             \<not> has_file items (fileName req))
        \<and> download_route reportDir None req
            = (Json 404 (''File '' @ fileName req @ '' not found''), []))"
  by (auto simp: download_route_def downloadFile_def findFile_empty_iff
           split: prod.splits list.splits)

theorem download_route_traversal_witness:
  "includes_str ''../secret.pdf'' ''..''
   \<and> download_route ''/app/generated_report'' (Some (Dir report_tree))
        \<lparr>authenticated = True, fileName = ''../secret.pdf''\<rparr>
       = (Json 400 ''Invalid file name'', [])
   \<and> \<not> includes_str ''AI_2024.pdf'' ''..'' \<and> \<not> includes_str ''AI_2024.pdf'' ''/''
   \<and> has_file report_tree ''AI_2024.pdf''
   \<and> download_route ''/app/generated_report'' (Some (Dir report_tree))
        \<lparr>authenticated = True, fileName = ''AI_2024.pdf''\<rparr>
       = (SendFile ''application/pdf'' ''pdf bytes'',
          [''/app/generated_report'', ''/app/generated_report/AI_2024''])"
proof -
  have h1: "includes_str ''../secret.pdf'' ''..''" by (simp add: startsWith_def)
  have h2: "\<not> includes_str ''AI_2024.pdf'' ''..'' \<and> \<not> includes_str ''AI_2024.pdf'' ''/''"
    by (simp add: startsWith_def)
  have f: "findFile ''/app/generated_report'' report_tree ''AI_2024.pdf''
           = ([(''/app/generated_report/AI_2024/AI_2024.pdf'', ''pdf bytes'')],
              [''/app/generated_report/AI_2024''])"
    by (simp add: report_tree_def)
  have c: "contentType ''AI_2024.pdf'' = ''application/pdf''"
    by (simp add: contentType_def extname_def toLowerCase_def toLowerChar_def)
  have hf: "has_file report_tree ''AI_2024.pdf''" by (simp add: report_tree_def)
  have r1: "download_route ''/app/generated_report'' (Some (Dir report_tree))
              \<lparr>authenticated = True, fileName = ''../secret.pdf''\<rparr>
            = (Json 400 ''Invalid file name'', [])"
    using download_route_traversal
            [where req = "\<lparr>authenticated = True, fileName = ''../secret.pdf''\<rparr>"
               and reportDir = "''/app/generated_report''"
               and outputRoot = "Some (Dir report_tree)" and items = report_tree]
    by (simp add: startsWith_def)
  have r2: "download_route ''/app/generated_report'' (Some (Dir report_tree))
              \<lparr>authenticated = True, fileName = ''AI_2024.pdf''\<rparr>
            = (SendFile ''application/pdf'' ''pdf bytes'',
               [''/app/generated_report'', ''/app/generated_report/AI_2024''])"
    using f c download_route_traversal
            [where req = "\<lparr>authenticated = True, fileName = ''AI_2024.pdf''\<rparr>"
               and reportDir = "''/app/generated_report''"
               and outputRoot = "Some (Dir report_tree)" and items = report_tree]
    by (simp add: startsWith_def)
  show ?thesis using h1 h2 hf r1 r2 by blast
qed

end
